theory Spec2Isabelle
  imports Complex_Main
begin

section \<open>Satellite telemetry service: data model\<close>

text \<open>
  The embedding follows \<^verbatim>\<open>app/db/models.py\<close> and \<^verbatim>\<open>app/routers/telemetry.py\<close>.
  A satellite id is the sequence of its characters, so \<open>length\<close> is the character count
  that both the request validation (\<^verbatim>\<open>max_length=64\<close>) and the table constraint
  (\<^verbatim>\<open>length(satelliteId) <= 64\<close>) compare with 64. A date-time is a point on the
  (microsecond) time line, an integer; altitude and velocity are numbers that are only
  ever compared with zero and copied, and are modelled as reals.
\<close>

type_synonym datetime = int

text \<open>\<^verbatim>\<open>class TelemetryStatus(str, Enum)\<close>: two members, each with its string value.\<close>

datatype TelemetryStatus = HEALTHY | CRITICAL

fun status_value :: "TelemetryStatus \<Rightarrow> string" where
  "status_value HEALTHY = ''healthy''"
| "status_value CRITICAL = ''critical''"

text \<open>
  \<^verbatim>\<open>class TelemetryCreate(BaseModel)\<close>: the body of a POST, with its five fields present
  and of the declared types (a body that does not parse into these types never reaches
  the constraints below).
\<close>

record TelemetryCreate =
  satelliteId :: string
  timestamp :: datetime
  altitude :: real
  velocity :: real
  status :: TelemetryStatus

text \<open>
  \<^verbatim>\<open>class Telemetry(Base)\<close>, one row of the table \<^verbatim>\<open>telemetry\<close>, which is also what
  \<^verbatim>\<open>TelemetryResponse\<close> serialises: the five payload columns and the three
  system-assigned ones. The primary key is called \<open>id'\<close> here.
\<close>

record Telemetry = TelemetryCreate +
  id' :: int
  created :: datetime
  updated :: datetime

text \<open>The table, its rows in rowid order (the order of a table scan).\<close>

type_synonym db = "Telemetry list"

text \<open>\<^verbatim>\<open>class DeleteResponse(BaseModel)\<close>; its field \<^verbatim>\<open>id\<close> is called \<open>deleted_id\<close> here.\<close>

record DeleteResponse =
  deleted_id :: int
  message :: string

text \<open>
  \<^verbatim>\<open>Page[TelemetryResponse]\<close> of the pagination library: the window, the count of all
  matching rows, and the two request parameters echoed.
\<close>

record Page =
  items :: "Telemetry list"
  total :: nat
  page :: int
  size' :: int

text \<open>
  The failures of a request: a 422 with one (field, error type) entry per failed
  constraint, an \<^verbatim>\<open>HTTPException\<close> with its status code and detail, and the
  \<^verbatim>\<open>IntegrityError\<close> of a violated table constraint, named by the constraint.
\<close>

datatype error =
    RequestValidationError "(string \<times> string) list"
  | HTTPException nat string
  | IntegrityError string

section \<open>Validation layer\<close>

text \<open>
  The \<^verbatim>\<open>Field\<close> constraints of \<^verbatim>\<open>TelemetryCreate\<close>, in field order; every violated
  constraint is reported:
  \<^verbatim>\<open>satelliteId: str = Field(..., max_length=64)\<close>,
  \<^verbatim>\<open>altitude: float = Field(..., gt=0)\<close>, \<^verbatim>\<open>velocity: float = Field(..., gt=0)\<close>.
\<close>

definition TelemetryCreate_errors :: "TelemetryCreate \<Rightarrow> (string \<times> string) list" where
  "TelemetryCreate_errors p =
     (if length (satelliteId p) > 64 then [(''satelliteId'', ''string_too_long'')] else [])
   @ (if altitude p > 0 then [] else [(''altitude'', ''greater_than'')])
   @ (if velocity p > 0 then [] else [(''velocity'', ''greater_than'')])"

section \<open>Record store\<close>

text \<open>
  \<^verbatim>\<open>__table_args__\<close>: the three check constraints of the table, in declaration order;
  the first one violated is the one reported.
  \<^verbatim>\<open>CheckConstraint('length(satelliteId) <= 64', name='check_satelliteid_length')\<close>,
  \<^verbatim>\<open>CheckConstraint('altitude >= 0', name='check_altitude_positive')\<close>,
  \<^verbatim>\<open>CheckConstraint('velocity >= 0', name='check_velocity_positive')\<close>.
\<close>

definition check_satelliteid_length :: "Telemetry \<Rightarrow> bool" where
  "check_satelliteid_length r = (length (satelliteId r) \<le> 64)"

definition check_altitude_positive :: "Telemetry \<Rightarrow> bool" where
  "check_altitude_positive r = (altitude r \<ge> 0)"

definition check_velocity_positive :: "Telemetry \<Rightarrow> bool" where
  "check_velocity_positive r = (velocity r \<ge> 0)"

definition table_args :: "Telemetry \<Rightarrow> string option" where
  "table_args r =
     (if \<not> check_satelliteid_length r then Some ''check_satelliteid_length''
      else if \<not> check_altitude_positive r then Some ''check_altitude_positive''
      else if \<not> check_velocity_positive r then Some ''check_velocity_positive''
      else None)"

text \<open>
  The integer primary key of a new row: one more than the largest key in the table,
  1 in an empty table (the column is a plain \<^verbatim>\<open>Integer\<close> primary key).
\<close>

definition next_rowid :: "db \<Rightarrow> int" where
  "next_rowid rows = (if rows = [] then 1 else Max (set (map id' rows)) + 1)"

text \<open>
  \<^verbatim>\<open>Telemetry(**telemetry.model_dump())\<close> followed by \<^verbatim>\<open>db.add\<close> and \<^verbatim>\<open>db.commit\<close>:
  the payload columns are copied, the key is assigned, and the column defaults of
  \<^verbatim>\<open>created\<close> and \<^verbatim>\<open>updated\<close> (each its own \<^verbatim>\<open>default=datetime.utcnow\<close>) are filled
  from two readings of the clock, \<open>now_created\<close> and \<open>now_updated\<close>, taken in column
  order. The row is appended unless a check constraint fails, and then nothing is stored.
\<close>

definition new_row :: "TelemetryCreate \<Rightarrow> int \<Rightarrow> datetime \<Rightarrow> datetime \<Rightarrow> Telemetry" where
  "new_row p i now_created now_updated =
     \<lparr>satelliteId = satelliteId p, timestamp = timestamp p, altitude = altitude p,
      velocity = velocity p, status = status p,
      id' = i, created = now_created, updated = now_updated\<rparr>"

definition db_add_commit ::
  "TelemetryCreate \<Rightarrow> datetime \<Rightarrow> datetime \<Rightarrow> db \<Rightarrow> (error + Telemetry) \<times> db" where
  "db_add_commit p now_created now_updated rows =
     (let db_telemetry = new_row p (next_rowid rows) now_created now_updated
      in case table_args db_telemetry of
           Some c \<Rightarrow> (Inl (IntegrityError c), rows)
         | None \<Rightarrow> (Inr db_telemetry, rows @ [db_telemetry]))"

section \<open>Endpoints\<close>

text \<open>
  \<^verbatim>\<open>POST /telemetry\<close>, \<^verbatim>\<open>create_telemetry\<close>: the body is validated first (a 422 leaves
  the table alone), then the row is stored and returned as stored.
\<close>

definition create_telemetry ::
  "TelemetryCreate \<Rightarrow> datetime \<Rightarrow> datetime \<Rightarrow> db \<Rightarrow> (error + Telemetry) \<times> db" where
  "create_telemetry telemetry now_created now_updated rows =
     (case TelemetryCreate_errors telemetry of
        [] \<Rightarrow> db_add_commit telemetry now_created now_updated rows
      | e # es \<Rightarrow> (Inl (RequestValidationError (e # es)), rows))"

text \<open>
  \<^verbatim>\<open>GET /telemetry/{id}\<close>, \<^verbatim>\<open>get_telemetry\<close>:
  \<^verbatim>\<open>db.query(Telemetry).filter(Telemetry.id == id).first()\<close>, and a 404 when that is
  \<^verbatim>\<open>None\<close>.
\<close>

definition get_telemetry :: "int \<Rightarrow> db \<Rightarrow> error + Telemetry" where
  "get_telemetry i rows =
     (case find (\<lambda>r. id' r = i) rows of
        None \<Rightarrow> Inl (HTTPException 404 ''Telemetry record not found'')
      | Some telemetry \<Rightarrow> Inr telemetry)"

text \<open>
  \<^verbatim>\<open>DELETE /telemetry/{id}\<close>, \<^verbatim>\<open>delete_telemetry\<close>: the bulk delete removes every row
  with that key and reports how many; zero rows is a 404.
\<close>

definition delete_telemetry :: "int \<Rightarrow> db \<Rightarrow> (error + DeleteResponse) \<times> db" where
  "delete_telemetry i rows =
     (let rows_deleted = length (filter (\<lambda>r. id' r = i) rows);
          rows' = filter (\<lambda>r. id' r \<noteq> i) rows
      in if rows_deleted = 0
         then (Inl (HTTPException 404 ''Telemetry record not found''), rows')
         else (Inr \<lparr>deleted_id = i, message = ''Telemetry record deleted successfully''\<rparr>, rows'))"

text \<open>
  Truthiness, as the \<^verbatim>\<open>if satelliteId and status\<close> chain of \<^verbatim>\<open>list_satellites\<close> tests
  it: \<^verbatim>\<open>None\<close> and the empty string are false; a status is a string enum member and is
  as true as its value.
\<close>

fun truthy_str :: "string option \<Rightarrow> bool" where
  "truthy_str None = False"
| "truthy_str (Some s) = (s \<noteq> [])"

fun truthy_status :: "TelemetryStatus option \<Rightarrow> bool" where
  "truthy_status None = False"
| "truthy_status (Some st) = (status_value st \<noteq> [])"

text \<open>
  The query that \<^verbatim>\<open>list_satellites\<close> builds: the \<^verbatim>\<open>if\<close>/\<^verbatim>\<open>elif\<close> chain of filters, then
  \<^verbatim>\<open>order_by(Telemetry.timestamp.desc())\<close>. The sort keeps rows of equal timestamp in
  scan order.
\<close>

definition list_satellites_filter ::
  "string option \<Rightarrow> TelemetryStatus option \<Rightarrow> db \<Rightarrow> Telemetry list" where
  "list_satellites_filter sid st rows =
     (if truthy_str sid \<and> truthy_status st
        then filter (\<lambda>r. satelliteId r = the sid \<and> status r = the st) rows
      else if truthy_str sid then filter (\<lambda>r. satelliteId r = the sid) rows
      else if truthy_status st then filter (\<lambda>r. status r = the st) rows
      else rows)"

definition order_by_timestamp_desc :: "Telemetry list \<Rightarrow> Telemetry list" where
  "order_by_timestamp_desc query = sort_key (\<lambda>r. - timestamp r) query"

definition list_satellites_query ::
  "string option \<Rightarrow> TelemetryStatus option \<Rightarrow> db \<Rightarrow> Telemetry list" where
  "list_satellites_query sid st rows =
     order_by_timestamp_desc (list_satellites_filter sid st rows)"

text \<open>
  \<^verbatim>\<open>satelliteId: Optional[str] = Query(default=None, max_length=64)\<close>: the constraint on
  the query parameter of \<^verbatim>\<open>GET /telemetry\<close>.
\<close>

fun satelliteId_query_errors :: "string option \<Rightarrow> (string \<times> string) list" where
  "satelliteId_query_errors None = []"
| "satelliteId_query_errors (Some s) =
     (if length s > 64 then [(''satelliteId'', ''string_too_long'')] else [])"

text \<open>
  Modelled from the spec: the pagination library (its \<^verbatim>\<open>paginate\<close>, and the request
  parameters \<^verbatim>\<open>page\<close> and \<^verbatim>\<open>size\<close> it reads) is not among the sources. Section 4.4:
  \<open>page\<close> is at least 1, \<open>size\<close> is at least 1 and at most 100, values outside these
  bounds are rejected with a validation error; \<open>items\<close> is the slice of the ordered,
  filtered result for that page, \<open>total\<close> the count of all matching records, and \<open>page\<close>
  and \<open>size\<close> are echoed.
\<close>

definition Params_errors :: "int \<Rightarrow> int \<Rightarrow> (string \<times> string) list" where
  "Params_errors pg sz =
     (if pg \<ge> 1 then [] else [(''page'', ''greater_than_equal'')])
   @ (if sz \<ge> 1 then [] else [(''size'', ''greater_than_equal'')])
   @ (if sz \<le> 100 then [] else [(''size'', ''less_than_equal'')])"

definition paginate :: "Telemetry list \<Rightarrow> int \<Rightarrow> int \<Rightarrow> Page" where
  "paginate query pg sz =
     \<lparr>items = take (nat sz) (drop (nat ((pg - 1) * sz)) query),
      total = length query, page = pg, size' = sz\<rparr>"

text \<open>
  \<^verbatim>\<open>GET /telemetry\<close>, \<^verbatim>\<open>list_satellites\<close>: the query parameters are validated, the
  query is built and handed to \<^verbatim>\<open>paginate\<close>. The table is only read.
\<close>

definition list_satellites ::
  "string option \<Rightarrow> TelemetryStatus option \<Rightarrow> int \<Rightarrow> int \<Rightarrow> db \<Rightarrow> error + Page" where
  "list_satellites sid st pg sz rows =
     (case satelliteId_query_errors sid @ Params_errors pg sz of
        [] \<Rightarrow> Inr (paginate (list_satellites_query sid st rows) pg sz)
      | e # es \<Rightarrow> Inl (RequestValidationError (e # es)))"

section \<open>Histories of the service\<close>

text \<open>
  The table is written by two endpoints only. A history is a sequence of such calls,
  each POST with the two clock readings of its insert, served from the empty table.
\<close>

datatype call = POST TelemetryCreate datetime datetime | DELETE int

fun serve :: "call \<Rightarrow> db \<Rightarrow> db" where
  "serve (POST p now_created now_updated) rows =
     snd (create_telemetry p now_created now_updated rows)"
| "serve (DELETE i) rows = snd (delete_telemetry i rows)"

definition serve_all :: "call list \<Rightarrow> db" where
  "serve_all calls = fold serve calls []"

text \<open>The primary keys of the table increase strictly along the scan order.\<close>

definition rowid_order :: "db \<Rightarrow> bool" where
  "rowid_order rows = sorted_wrt (<) (map id' rows)"

text \<open>
  The order of a listing: later timestamps first, and among equal timestamps the
  smaller primary key first.
\<close>

definition listed_before :: "Telemetry \<Rightarrow> Telemetry \<Rightarrow> bool" where
  "listed_before a b =
     (timestamp a > timestamp b \<or> (timestamp a = timestamp b \<and> id' a < id' b))"

section \<open>Example data\<close>

text \<open>
  Two payloads in the style of the unit tests, the rows they become when posted in
  this order to an empty table at clock readings 20 and 30, and a third row whose
  timestamp ties with the first.
\<close>

abbreviation payload1 :: TelemetryCreate where
  "payload1 \<equiv> \<lparr>satelliteId = ''SAT-001'', timestamp = 10, altitude = 550,
     velocity = 76 / 10, status = HEALTHY\<rparr>"

abbreviation payload2 :: TelemetryCreate where
  "payload2 \<equiv> \<lparr>satelliteId = ''SAT-001'', timestamp = 12, altitude = 600,
     velocity = 77 / 10, status = CRITICAL\<rparr>"

abbreviation row1 :: Telemetry where
  "row1 \<equiv> \<lparr>satelliteId = ''SAT-001'', timestamp = 10, altitude = 550,
     velocity = 76 / 10, status = HEALTHY, id' = 1, created = 20, updated = 20\<rparr>"

abbreviation row2 :: Telemetry where
  "row2 \<equiv> \<lparr>satelliteId = ''SAT-001'', timestamp = 12, altitude = 600,
     velocity = 77 / 10, status = CRITICAL, id' = 2, created = 30, updated = 30\<rparr>"

abbreviation row3 :: Telemetry where
  "row3 \<equiv> \<lparr>satelliteId = ''SAT-002'', timestamp = 10, altitude = 20200,
     velocity = 39 / 10, status = CRITICAL, id' = 3, created = 40, updated = 40\<rparr>"

section \<open>Basic facts about the store\<close>

lemma next_rowid_greater: "r \<in> set rows \<Longrightarrow> id' r < next_rowid rows"
proof -
  assume r: "r \<in> set rows"
  then have "id' r \<in> set (map id' rows)" by simp
  then have "id' r \<le> Max (set (map id' rows))" by (intro Max_ge) simp_all
  with r show ?thesis by (auto simp: next_rowid_def)
qed

lemma TelemetryCreate_errors_Nil:
  "TelemetryCreate_errors p = [] \<longleftrightarrow>
     length (satelliteId p) \<le> 64 \<and> altitude p > 0 \<and> velocity p > 0"
  by (auto simp: TelemetryCreate_errors_def)

lemma table_args_new_row:
  "TelemetryCreate_errors p = [] \<Longrightarrow> table_args (new_row p i c u) = None"
  by (simp add: TelemetryCreate_errors_Nil table_args_def new_row_def
      check_satelliteid_length_def check_altitude_positive_def check_velocity_positive_def)

lemma create_telemetry_valid:
  "TelemetryCreate_errors p = [] \<Longrightarrow>
   create_telemetry p c u rows =
     (Inr (new_row p (next_rowid rows) c u), rows @ [new_row p (next_rowid rows) c u])"
  by (simp add: create_telemetry_def db_add_commit_def Let_def table_args_new_row)

lemma create_telemetry_invalid:
  "TelemetryCreate_errors p \<noteq> [] \<Longrightarrow>
   create_telemetry p c u rows = (Inl (RequestValidationError (TelemetryCreate_errors p)), rows)"
  by (simp add: create_telemetry_def split: list.splits)

lemma find_append_last:
  "\<forall>x\<in>set xs. \<not> P x \<Longrightarrow> P y \<Longrightarrow> find P (xs @ [y]) = Some y"
  by (induction xs) auto

lemma id_new_row: "id' (new_row p i c u) = i"
  by (simp add: new_row_def)

section \<open>Create, then read back\<close>

text \<open>
  C1. A payload that passes validation is stored, and reading the assigned id back at
  once returns the very record that the create returned: equal as records, hence in
  every one of the eight fields.
\<close>

theorem create_then_get:
  assumes "TelemetryCreate_errors p = []"
  shows "\<exists>r. fst (create_telemetry p c u rows) = Inr r
           \<and> get_telemetry (id' r) (snd (create_telemetry p c u rows)) = Inr r"
proof -
  let ?r = "new_row p (next_rowid rows) c u"
  have "\<forall>x\<in>set rows. \<not> id' x = id' ?r"
    using next_rowid_greater by (fastforce simp: id_new_row)
  then have "find (\<lambda>x. id' x = id' ?r) (rows @ [?r]) = Some ?r"
    by (intro find_append_last) simp_all
  then have "get_telemetry (id' ?r) (rows @ [?r]) = Inr ?r"
    by (simp add: get_telemetry_def)
  with assms show ?thesis by (simp add: create_telemetry_valid)
qed

theorem create_then_get_witness:
  "TelemetryCreate_errors
     \<lparr>satelliteId = ''SAT-001'', timestamp = 10, altitude = 550, velocity = 76 / 10,
      status = HEALTHY\<rparr> = []
   \<and> (\<exists>r. fst (create_telemetry
        \<lparr>satelliteId = ''SAT-001'', timestamp = 10, altitude = 550, velocity = 76 / 10,
         status = HEALTHY\<rparr> 20 21 []) = Inr r
      \<and> get_telemetry (id' r) (snd (create_telemetry
        \<lparr>satelliteId = ''SAT-001'', timestamp = 10, altitude = 550, velocity = 76 / 10,
         status = HEALTHY\<rparr> 20 21 [])) = Inr r)"
proof -
  have h: "TelemetryCreate_errors
     \<lparr>satelliteId = ''SAT-001'', timestamp = 10, altitude = 550, velocity = 76 / 10,
      status = HEALTHY\<rparr> = []"
    by (simp add: TelemetryCreate_errors_def)
  from create_then_get [OF h] h show ?thesis by blast
qed

section \<open>Rejected payloads\<close>

text \<open>
  C5. A payload whose altitude or velocity is zero or negative is answered with a
  validation error that names each offending field, and the table after the call is the
  table before it, so its row count is unchanged.
\<close>

theorem create_rejects_nonpositive:
  assumes "altitude p \<le> 0 \<or> velocity p \<le> 0"
  shows "\<exists>errs. create_telemetry p c u rows = (Inl (RequestValidationError errs), rows)
           \<and> errs \<noteq> []
           \<and> (altitude p \<le> 0 \<longrightarrow> (''altitude'', ''greater_than'') \<in> set errs)
           \<and> (velocity p \<le> 0 \<longrightarrow> (''velocity'', ''greater_than'') \<in> set errs)"
proof -
  from assms have ne: "TelemetryCreate_errors p \<noteq> []"
    by (auto simp: TelemetryCreate_errors_def)
  have "altitude p \<le> 0 \<longrightarrow> (''altitude'', ''greater_than'') \<in> set (TelemetryCreate_errors p)"
    by (simp add: TelemetryCreate_errors_def)
  moreover
  have "velocity p \<le> 0 \<longrightarrow> (''velocity'', ''greater_than'') \<in> set (TelemetryCreate_errors p)"
    by (simp add: TelemetryCreate_errors_def)
  ultimately show ?thesis
    using ne create_telemetry_invalid [OF ne] by blast
qed

theorem create_rejects_nonpositive_witness:
  "(altitude \<lparr>satelliteId = ''SAT-001'', timestamp = 10, altitude = 0,
      velocity = - 72 / 10, status = HEALTHY\<rparr> \<le> 0
    \<or> velocity \<lparr>satelliteId = ''SAT-001'', timestamp = 10, altitude = 0,
      velocity = - 72 / 10, status = HEALTHY\<rparr> \<le> 0)
   \<and> (\<exists>errs. create_telemetry
         \<lparr>satelliteId = ''SAT-001'', timestamp = 10, altitude = 0, velocity = - 72 / 10,
          status = HEALTHY\<rparr> 20 21 [] = (Inl (RequestValidationError errs), [])
       \<and> (''altitude'', ''greater_than'') \<in> set errs
       \<and> (''velocity'', ''greater_than'') \<in> set errs)"
proof -
  have h: "altitude \<lparr>satelliteId = ''SAT-001'', timestamp = 10, altitude = 0,
      velocity = - 72 / 10, status = HEALTHY\<rparr> \<le> 0
    \<or> velocity \<lparr>satelliteId = ''SAT-001'', timestamp = 10, altitude = 0,
      velocity = - 72 / 10, status = HEALTHY\<rparr> \<le> 0"
    by simp
  from create_rejects_nonpositive [OF h, of 20 21 "[]"] h show ?thesis
    by auto
qed

section \<open>The length bound on the satellite id\<close>

text \<open>
  C6, the claim as stated fails: a payload with the empty satellite id (and otherwise
  fine) is accepted and stored, since the field carries \<^verbatim>\<open>max_length=64\<close> and no lower
  bound.
\<close>

theorem empty_satelliteId_accepted:
  "create_telemetry
     \<lparr>satelliteId = [], timestamp = 10, altitude = 550, velocity = 76 / 10,
      status = HEALTHY\<rparr> 20 21 []
   = (Inr \<lparr>satelliteId = [], timestamp = 10, altitude = 550, velocity = 76 / 10,
           status = HEALTHY, id' = 1, created = 20, updated = 21\<rparr>,
      [\<lparr>satelliteId = [], timestamp = 10, altitude = 550, velocity = 76 / 10,
        status = HEALTHY, id' = 1, created = 20, updated = 21\<rparr>])"
  by (simp add: create_telemetry_def TelemetryCreate_errors_def db_add_commit_def Let_def
      new_row_def next_rowid_def table_args_def check_satelliteid_length_def
      check_altitude_positive_def check_velocity_positive_def)

text \<open>
  C6, amended. For a payload whose altitude and velocity are positive, create stores
  the record (with the satellite id as sent) exactly when the satellite id has at most
  64 characters, and answers with a validation error on that field, storing nothing,
  exactly when it has more. So 64 characters are accepted, 65 rejected, and the empty
  id accepted.
\<close>

theorem satelliteId_max_length:
  assumes "0 < altitude p" and "0 < velocity p"
  shows "((\<exists>r. create_telemetry p c u rows = (Inr r, rows @ [r]) \<and> satelliteId r = satelliteId p)
            \<longleftrightarrow> length (satelliteId p) \<le> 64)
       \<and> (create_telemetry p c u rows
            = (Inl (RequestValidationError [(''satelliteId'', ''string_too_long'')]), rows)
            \<longleftrightarrow> length (satelliteId p) > 64)"
proof (cases "length (satelliteId p) \<le> 64")
  case True
  with assms have v: "TelemetryCreate_errors p = []"
    by (simp add: TelemetryCreate_errors_Nil)
  have "satelliteId (new_row p (next_rowid rows) c u) = satelliteId p"
    by (simp add: new_row_def)
  with True show ?thesis
    by (simp add: create_telemetry_valid [OF v])
next
  case False
  with assms have e: "TelemetryCreate_errors p = [(''satelliteId'', ''string_too_long'')]"
    by (simp add: TelemetryCreate_errors_def)
  then have "TelemetryCreate_errors p \<noteq> []" by simp
  from create_telemetry_invalid [OF this] e False show ?thesis by simp
qed

theorem satelliteId_max_length_witness:
  "(\<exists>r. create_telemetry
          \<lparr>satelliteId = replicate 64 CHR ''S'', timestamp = 10, altitude = 550,
           velocity = 76 / 10, status = HEALTHY\<rparr> 20 21 [] = (Inr r, [] @ [r])
        \<and> satelliteId r = replicate 64 CHR ''S'')
   \<and> create_telemetry
          \<lparr>satelliteId = replicate 65 CHR ''S'', timestamp = 10, altitude = 550,
           velocity = 76 / 10, status = HEALTHY\<rparr> 20 21 []
        = (Inl (RequestValidationError [(''satelliteId'', ''string_too_long'')]), [])
   \<and> (\<exists>r. create_telemetry
          \<lparr>satelliteId = [], timestamp = 10, altitude = 550,
           velocity = 76 / 10, status = HEALTHY\<rparr> 20 21 [] = (Inr r, [] @ [r])
        \<and> satelliteId r = [])"
  using
    satelliteId_max_length [of "\<lparr>satelliteId = replicate 64 CHR ''S'', timestamp = 10,
      altitude = 550, velocity = 76 / 10, status = HEALTHY\<rparr>" 20 21 "[]"]
    satelliteId_max_length [of "\<lparr>satelliteId = replicate 65 CHR ''S'', timestamp = 10,
      altitude = 550, velocity = 76 / 10, status = HEALTHY\<rparr>" 20 21 "[]"]
    satelliteId_max_length [of "\<lparr>satelliteId = [], timestamp = 10,
      altitude = 550, velocity = 76 / 10, status = HEALTHY\<rparr>" 20 21 "[]"]
  by simp

section \<open>The table constraints on their own\<close>

text \<open>What the three check constraints let through.\<close>

lemma table_args_None:
  "table_args r = None \<longleftrightarrow>
     length (satelliteId r) \<le> 64 \<and> altitude r \<ge> 0 \<and> velocity r \<ge> 0"
  by (simp add: table_args_def check_satelliteid_length_def check_altitude_positive_def
      check_velocity_positive_def)

text \<open>
  C7. The constraints named \<^verbatim>\<open>check_altitude_positive\<close> and
  \<^verbatim>\<open>check_velocity_positive\<close> test \<^verbatim>\<open>>= 0\<close>: a row with altitude 0 and velocity 0,
  added without passing through the validation layer, violates no constraint and is
  stored.
\<close>

theorem zero_altitude_passes_table_constraints:
  "table_args \<lparr>satelliteId = ''SAT-001'', timestamp = 10, altitude = 0, velocity = 0,
      status = HEALTHY, id' = 1, created = 20, updated = 21\<rparr> = None
   \<and> db_add_commit \<lparr>satelliteId = ''SAT-001'', timestamp = 10, altitude = 0, velocity = 0,
      status = HEALTHY\<rparr> 20 21 []
     = (Inr \<lparr>satelliteId = ''SAT-001'', timestamp = 10, altitude = 0, velocity = 0,
          status = HEALTHY, id' = 1, created = 20, updated = 21\<rparr>,
        [\<lparr>satelliteId = ''SAT-001'', timestamp = 10, altitude = 0, velocity = 0,
          status = HEALTHY, id' = 1, created = 20, updated = 21\<rparr>])"
  by (simp add: db_add_commit_def Let_def new_row_def next_rowid_def table_args_def
      check_satelliteid_length_def check_altitude_positive_def check_velocity_positive_def)

section \<open>Keys and histories\<close>

lemma find_None_iff_id: "find (\<lambda>r. id' r = i) rows = None \<longleftrightarrow> (\<forall>r\<in>set rows. id' r \<noteq> i)"
  by (auto simp: find_None_iff)

lemma rowid_order_distinct: "rowid_order rows \<Longrightarrow> distinct (map id' rows)"
  unfolding rowid_order_def by (simp add: strict_sorted_iff)

lemma filter_key_le_one:
  "distinct (map f xs) \<Longrightarrow> length (filter (\<lambda>x. f x = k) xs) \<le> Suc 0"
proof (induction xs)
  case Nil
  then show ?case by simp
next
  case (Cons x xs)
  show ?case
  proof (cases "f x = k")
    case True
    with Cons.prems have "\<forall>y\<in>set xs. f y \<noteq> k" by (auto simp: image_iff)
    then have "filter (\<lambda>x. f x = k) xs = []" by (simp add: filter_empty_conv)
    with True show ?thesis by simp
  next
    case False
    with Cons show ?thesis by simp
  qed
qed

lemma rowid_order_append:
  "rowid_order rows \<Longrightarrow> rowid_order (rows @ [new_row p (next_rowid rows) c u])"
  unfolding rowid_order_def
  by (auto simp: sorted_wrt_append id_new_row dest: next_rowid_greater)

lemma rowid_order_filter: "rowid_order rows \<Longrightarrow> rowid_order (filter P rows)"
  unfolding rowid_order_def by (simp add: sorted_wrt_map sorted_wrt_filter)

lemma snd_create_telemetry:
  "snd (create_telemetry p c u rows) =
     (if TelemetryCreate_errors p = [] then rows @ [new_row p (next_rowid rows) c u] else rows)"
  by (simp add: create_telemetry_valid create_telemetry_invalid)

lemma snd_delete_telemetry: "snd (delete_telemetry i rows) = filter (\<lambda>r. id' r \<noteq> i) rows"
  by (simp add: delete_telemetry_def Let_def)

lemma rowid_order_serve: "rowid_order rows \<Longrightarrow> rowid_order (serve call rows)"
  by (cases call) (simp_all add: snd_create_telemetry snd_delete_telemetry
      rowid_order_append rowid_order_filter)

lemma rowid_order_fold: "rowid_order rows \<Longrightarrow> rowid_order (fold serve calls rows)"
  by (induction calls arbitrary: rows) (simp_all add: rowid_order_serve)

lemma rowid_order_serve_all: "rowid_order (serve_all calls)"
  unfolding serve_all_def by (rule rowid_order_fold) (simp add: rowid_order_def)

section \<open>Not found, and delete\<close>

text \<open>
  C8. Reading and deleting by id answer 404 exactly when no row has that id. After a
  delete of an id, found or not, reading that id answers 404. Where the table has the
  id (and its keys are in rowid order, as in every table the service builds), the
  delete succeeds, answers with that id, and removes exactly one row: the one with the
  id.
\<close>

theorem not_found_iff_absent:
  "(get_telemetry i rows = Inl (HTTPException 404 ''Telemetry record not found'')
      \<longleftrightarrow> (\<forall>r\<in>set rows. id' r \<noteq> i))
   \<and> (fst (delete_telemetry i rows) = Inl (HTTPException 404 ''Telemetry record not found'')
      \<longleftrightarrow> (\<forall>r\<in>set rows. id' r \<noteq> i))
   \<and> get_telemetry i (snd (delete_telemetry i rows))
       = Inl (HTTPException 404 ''Telemetry record not found'')
   \<and> (rowid_order rows \<and> (\<exists>r\<in>set rows. id' r = i) \<longrightarrow>
        fst (delete_telemetry i rows)
          = Inr \<lparr>deleted_id = i, message = ''Telemetry record deleted successfully''\<rparr>
        \<and> Suc (length (snd (delete_telemetry i rows))) = length rows
        \<and> set (snd (delete_telemetry i rows)) = set rows - {r. id' r = i})"
proof -
  have g: "get_telemetry i rows = Inl (HTTPException 404 ''Telemetry record not found'')
      \<longleftrightarrow> (\<forall>r\<in>set rows. id' r \<noteq> i)"
  proof -
    have "get_telemetry i rows = Inl (HTTPException 404 ''Telemetry record not found'')
      \<longleftrightarrow> find (\<lambda>r. id' r = i) rows = None"
      by (simp add: get_telemetry_def split: option.splits)
    then show ?thesis by (simp add: find_None_iff_id)
  qed
  have d: "fst (delete_telemetry i rows) = Inl (HTTPException 404 ''Telemetry record not found'')
      \<longleftrightarrow> (\<forall>r\<in>set rows. id' r \<noteq> i)"
    by (auto simp: delete_telemetry_def Let_def filter_empty_conv)
  have a: "get_telemetry i (snd (delete_telemetry i rows))
       = Inl (HTTPException 404 ''Telemetry record not found'')"
  proof -
    have "find (\<lambda>r. id' r = i) (filter (\<lambda>r. id' r \<noteq> i) rows) = None"
      by (simp add: find_None_iff_id)
    then show ?thesis by (simp add: snd_delete_telemetry get_telemetry_def)
  qed
  have s: "fst (delete_telemetry i rows)
          = Inr \<lparr>deleted_id = i, message = ''Telemetry record deleted successfully''\<rparr>
        \<and> Suc (length (snd (delete_telemetry i rows))) = length rows
        \<and> set (snd (delete_telemetry i rows)) = set rows - {r. id' r = i}"
    if ro: "rowid_order rows" and ex: "\<exists>r\<in>set rows. id' r = i"
  proof -
    from ex have ne: "filter (\<lambda>r. id' r = i) rows \<noteq> []"
      by (simp add: filter_empty_conv)
    then have "length (filter (\<lambda>r. id' r = i) rows) \<noteq> 0" by simp
    moreover from ro have "length (filter (\<lambda>r. id' r = i) rows) \<le> Suc 0"
      by (intro filter_key_le_one rowid_order_distinct)
    ultimately have one: "length (filter (\<lambda>r. id' r = i) rows) = Suc 0" by linarith
    have "length (filter (\<lambda>r. id' r = i) rows) + length (filter (\<lambda>r. \<not> id' r = i) rows)
        = length rows"
      by (rule sum_length_filter_compl)
    with one have "Suc (length (filter (\<lambda>r. id' r \<noteq> i) rows)) = length rows" by simp
    moreover from ne have "fst (delete_telemetry i rows)
          = Inr \<lparr>deleted_id = i, message = ''Telemetry record deleted successfully''\<rparr>"
      by (simp add: delete_telemetry_def Let_def)
    moreover have "set (filter (\<lambda>r. id' r \<noteq> i) rows) = set rows - {r. id' r = i}" by auto
    ultimately show ?thesis by (simp add: snd_delete_telemetry)
  qed
  from g d a s show ?thesis by blast
qed

theorem not_found_iff_absent_witness:
  "rowid_order [row1, row2]
   \<and> get_telemetry 99999 [row1, row2] = Inl (HTTPException 404 ''Telemetry record not found'')
   \<and> fst (delete_telemetry 99999 [row1, row2])
       = Inl (HTTPException 404 ''Telemetry record not found'')
   \<and> fst (delete_telemetry 1 [row1, row2])
       = Inr \<lparr>deleted_id = 1, message = ''Telemetry record deleted successfully''\<rparr>
   \<and> Suc (length (snd (delete_telemetry 1 [row1, row2]))) = length [row1, row2]
   \<and> get_telemetry 1 (snd (delete_telemetry 1 [row1, row2]))
       = Inl (HTTPException 404 ''Telemetry record not found'')"
proof -
  have ro: "rowid_order [row1, row2]" by (simp add: rowid_order_def)
  have absent: "\<forall>r\<in>set [row1, row2]. id' r \<noteq> 99999" by simp
  have present: "\<exists>r\<in>set [row1, row2]. id' r = 1" by simp
  from not_found_iff_absent [of 99999 "[row1, row2]"] absent
    not_found_iff_absent [of 1 "[row1, row2]"] ro present
  show ?thesis by blast
qed

section \<open>The two system timestamps\<close>

text \<open>
  C9, the claim as stated fails: \<^verbatim>\<open>created\<close> and \<^verbatim>\<open>updated\<close> have separate column
  defaults, each reading the clock, and a record inserted while the clock moves from 20
  to 21 is persisted with \<open>created = 20\<close> and \<open>updated = 21\<close>.
\<close>

theorem created_updated_differ:
  "map (\<lambda>r. (id' r, created r, updated r)) (serve_all [POST payload1 20 21]) = [(1, 20, 21)]"
  by (simp add: serve_all_def create_telemetry_def TelemetryCreate_errors_def
      db_add_commit_def Let_def new_row_def next_rowid_def table_args_def
      check_satelliteid_length_def check_altitude_positive_def check_velocity_positive_def)

lemma set_serve:
  "r \<in> set (serve call rows) \<Longrightarrow>
     r \<in> set rows \<or> (\<exists>p c u. call = POST p c u \<and> r = new_row p (next_rowid rows) c u)"
  by (cases call) (auto simp: snd_create_telemetry snd_delete_telemetry split: if_splits)

text \<open>
  C9, amended. Every row of the table after a call is a row of the table before it,
  unchanged in every field, or the row that the call inserted, whose \<^verbatim>\<open>created\<close> and
  \<^verbatim>\<open>updated\<close> are the two clock readings of that insert: no operation changes either
  field later. Hence, in a history in which the two readings of every insert coincide,
  \<^verbatim>\<open>updated\<close> equals \<^verbatim>\<open>created\<close> in every persisted record.
\<close>

theorem created_updated_fixed_at_insert:
  "(\<forall>r\<in>set (serve call rows).
      r \<in> set rows
      \<or> (\<exists>p c u. call = POST p c u \<and> r = new_row p (next_rowid rows) c u
            \<and> created r = c \<and> updated r = u))
   \<and> ((\<forall>p c u. POST p c u \<in> set calls \<longrightarrow> u = c)
        \<longrightarrow> (\<forall>r\<in>set (serve_all calls). updated r = created r))"
proof -
  have step: "\<forall>r\<in>set (serve call rows).
      r \<in> set rows
      \<or> (\<exists>p c u. call = POST p c u \<and> r = new_row p (next_rowid rows) c u
            \<and> created r = c \<and> updated r = u)" for call rows
    using set_serve [of _ call rows] by (fastforce simp: new_row_def)
  have inv: "\<forall>r\<in>set (fold serve cs rs). updated r = created r"
    if "\<forall>p c u. POST p c u \<in> set cs \<longrightarrow> u = c" and "\<forall>r\<in>set rs. updated r = created r"
    for cs rs
    using that
  proof (induction cs arbitrary: rs)
    case Nil
    then show ?case by simp
  next
    case (Cons a cs)
    have "\<forall>r\<in>set (serve a rs). updated r = created r"
    proof
      fix r assume "r \<in> set (serve a rs)"
      from set_serve [OF this] show "updated r = created r"
      proof
        assume "r \<in> set rs"
        with Cons.prems(2) show ?thesis by blast
      next
        assume "\<exists>p c u. a = POST p c u \<and> r = new_row p (next_rowid rs) c u"
        then obtain p c u where a: "a = POST p c u" and r: "r = new_row p (next_rowid rs) c u"
          by blast
        from a Cons.prems(1) have "u = c" by simp
        with r show ?thesis by (simp add: new_row_def)
      qed
    qed
    moreover from Cons.prems(1) have "\<forall>p c u. POST p c u \<in> set cs \<longrightarrow> u = c" by simp
    ultimately have "\<forall>r\<in>set (fold serve cs (serve a rs)). updated r = created r"
      by (rule Cons.IH [rotated])
    then show ?case by simp
  qed
  have "(\<forall>p c u. POST p c u \<in> set calls \<longrightarrow> u = c)
        \<longrightarrow> (\<forall>r\<in>set (serve_all calls). updated r = created r)"
    unfolding serve_all_def using inv [of calls "[]"] by simp
  with step show ?thesis by blast
qed

theorem created_updated_fixed_at_insert_witness:
  "serve_all [POST payload1 20 20, POST payload2 30 30, DELETE 1] = [row2]
   \<and> list_all (\<lambda>r. updated r = created r)
       (serve_all [POST payload1 20 20, POST payload2 30 30, DELETE 1])
   \<and> set (serve (DELETE 1) [row1, row2]) \<subseteq> set [row1, row2]"
proof -
  have h: "\<forall>p c u. POST p c u \<in> set [POST payload1 20 20, POST payload2 30 30, DELETE 1]
      \<longrightarrow> u = c"
    by auto
  have e: "serve_all [POST payload1 20 20, POST payload2 30 30, DELETE 1] = [row2]"
    by (simp add: serve_all_def create_telemetry_def TelemetryCreate_errors_def
      db_add_commit_def Let_def new_row_def next_rowid_def table_args_def
      check_satelliteid_length_def check_altitude_positive_def check_velocity_positive_def
      delete_telemetry_def)
  from created_updated_fixed_at_insert
         [of "DELETE 1" "[row1, row2]" "[POST payload1 20 20, POST payload2 30 30, DELETE 1]"] h
  have "(\<forall>r\<in>set (serve (DELETE 1) [row1, row2]). r \<in> set [row1, row2])"
    and "\<forall>r\<in>set (serve_all [POST payload1 20 20, POST payload2 30 30, DELETE 1]).
          updated r = created r"
    by blast+
  with e show ?thesis by (auto simp: list_all_iff)
qed

section \<open>Listing: filters\<close>

lemma status_value_nonempty: "status_value t \<noteq> []"
  by (cases t) simp_all

lemma list_satellites_filter_simps:
  "s \<noteq> [] \<Longrightarrow> list_satellites_filter (Some s) (Some t) rows
     = filter (\<lambda>r. satelliteId r = s \<and> status r = t) rows"
  "s \<noteq> [] \<Longrightarrow> list_satellites_filter (Some s) None rows = filter (\<lambda>r. satelliteId r = s) rows"
  "list_satellites_filter None (Some t) rows = filter (\<lambda>r. status r = t) rows"
  "list_satellites_filter None None rows = rows"
  "list_satellites_filter (Some []) st rows = list_satellites_filter None st rows"
  by (simp_all add: list_satellites_filter_def status_value_nonempty)

lemma Params_errors_Nil: "Params_errors pg sz = [] \<longleftrightarrow> 1 \<le> pg \<and> 1 \<le> sz \<and> sz \<le> 100"
  by (auto simp: Params_errors_def)

lemma list_satellites_ok:
  "satelliteId_query_errors sid = [] \<Longrightarrow> 1 \<le> pg \<Longrightarrow> 1 \<le> sz \<Longrightarrow> sz \<le> 100 \<Longrightarrow>
   list_satellites sid st pg sz rows = Inr (paginate (list_satellites_query sid st rows) pg sz)"
proof -
  assume "satelliteId_query_errors sid = []" "1 \<le> pg" "1 \<le> sz" "sz \<le> 100"
  then have "satelliteId_query_errors sid @ Params_errors pg sz = []"
    by (simp add: Params_errors_Nil)
  then show ?thesis by (simp add: list_satellites_def split: list.split)
qed

lemma list_satellites_Inr:
  "list_satellites sid st pg sz rows = Inr P \<Longrightarrow>
   P = paginate (list_satellites_query sid st rows) pg sz"
  by (auto simp: list_satellites_def split: list.splits)

lemma set_list_satellites_query:
  "set (list_satellites_query sid st rows) = set (list_satellites_filter sid st rows)"
  by (simp add: list_satellites_query_def order_by_timestamp_desc_def)

lemma length_list_satellites_query:
  "length (list_satellites_query sid st rows) = length (list_satellites_filter sid st rows)"
  by (simp add: list_satellites_query_def order_by_timestamp_desc_def)

text \<open>
  C10. A listing requested with the empty string as \<^verbatim>\<open>satelliteId\<close> is the listing
  requested without that parameter, whatever the status filter, page and size: the
  empty string is false in the \<^verbatim>\<open>if\<close> chain, so no filter on the satellite id is
  applied. The rows selected are all rows of the table when there is no status filter,
  and exactly the rows of the given status, of whatever satellite id, when there is
  one; the response, for a page and size within bounds, is the page of these rows in
  listing order.
\<close>

theorem empty_satelliteId_filter_ignored:
  "list_satellites (Some []) st pg sz rows = list_satellites None st pg sz rows
   \<and> list_satellites_query (Some []) st rows = list_satellites_query None st rows
   \<and> list_satellites_filter (Some []) st rows
       = (case st of None \<Rightarrow> rows | Some t \<Rightarrow> filter (\<lambda>r. status r = t) rows)
   \<and> set (list_satellites_query (Some []) st rows)
       = (case st of None \<Rightarrow> set rows | Some t \<Rightarrow> {r \<in> set rows. status r = t})
   \<and> (1 \<le> pg \<and> 1 \<le> sz \<and> sz \<le> 100 \<longrightarrow>
        list_satellites (Some []) st pg sz rows
          = Inr (paginate (order_by_timestamp_desc
               (case st of None \<Rightarrow> rows | Some t \<Rightarrow> filter (\<lambda>r. status r = t) rows)) pg sz))"
proof -
  have f: "list_satellites_filter (Some []) st rows
       = (case st of None \<Rightarrow> rows | Some t \<Rightarrow> filter (\<lambda>r. status r = t) rows)"
    by (cases st) (simp_all add: list_satellites_filter_simps)
  have q: "list_satellites_query (Some []) st rows = list_satellites_query None st rows"
    by (simp add: list_satellites_query_def list_satellites_filter_simps)
  then have l: "list_satellites (Some []) st pg sz rows = list_satellites None st pg sz rows"
    by (simp add: list_satellites_def split: list.split)
  have s: "set (list_satellites_query (Some []) st rows)
       = (case st of None \<Rightarrow> set rows | Some t \<Rightarrow> {r \<in> set rows. status r = t})"
    by (cases st) (auto simp: set_list_satellites_query list_satellites_filter_simps)
  have e: "list_satellites (Some []) st pg sz rows
          = Inr (paginate (order_by_timestamp_desc
               (case st of None \<Rightarrow> rows | Some t \<Rightarrow> filter (\<lambda>r. status r = t) rows)) pg sz)"
    if "1 \<le> pg" "1 \<le> sz" "sz \<le> 100"
  proof -
    from that have "list_satellites (Some []) st pg sz rows
        = Inr (paginate (list_satellites_query (Some []) st rows) pg sz)"
      by (intro list_satellites_ok) simp_all
    then show ?thesis by (simp add: list_satellites_query_def f)
  qed
  from l q f s e show ?thesis by blast
qed

theorem empty_satelliteId_filter_ignored_witness:
  "list_satellites (Some []) (Some CRITICAL) 1 50 [row1, row2, row3]
     = list_satellites None (Some CRITICAL) 1 50 [row1, row2, row3]
   \<and> list_satellites_filter (Some []) (Some CRITICAL) [row1, row2, row3] = [row2, row3]
   \<and> list_satellites (Some []) (Some CRITICAL) 1 50 [row1, row2, row3]
       = Inr \<lparr>items = [row2, row3], total = 2, page = 1, size' = 50\<rparr>
   \<and> list_satellites_filter (Some []) None [row1, row2, row3] = [row1, row2, row3]
   \<and> list_satellites (Some []) None 1 50 [row1, row2, row3]
       = Inr \<lparr>items = [row2, row1, row3], total = 3, page = 1, size' = 50\<rparr>"
proof -
  note c = empty_satelliteId_filter_ignored [of "Some CRITICAL" 1 50 "[row1, row2, row3]"]
  note n = empty_satelliteId_filter_ignored [of None 1 50 "[row1, row2, row3]"]
  have b: "1 \<le> (1::int) \<and> 1 \<le> (50::int) \<and> (50::int) \<le> 100" by simp
  from c have c1: "list_satellites (Some []) (Some CRITICAL) 1 50 [row1, row2, row3]
     = list_satellites None (Some CRITICAL) 1 50 [row1, row2, row3]"
    by blast
  from c have "list_satellites_filter (Some []) (Some CRITICAL) [row1, row2, row3]
     = (case Some CRITICAL of None \<Rightarrow> [row1, row2, row3]
        | Some t \<Rightarrow> filter (\<lambda>r. status r = t) [row1, row2, row3])"
    by blast
  then have c2: "list_satellites_filter (Some []) (Some CRITICAL) [row1, row2, row3]
     = [row2, row3]"
    by simp
  from c b have c3: "list_satellites (Some []) (Some CRITICAL) 1 50 [row1, row2, row3]
     = Inr (paginate (order_by_timestamp_desc
         (case Some CRITICAL of None \<Rightarrow> [row1, row2, row3]
          | Some t \<Rightarrow> filter (\<lambda>r. status r = t) [row1, row2, row3])) 1 50)"
    by blast
  have c4: "paginate (order_by_timestamp_desc
         (case Some CRITICAL of None \<Rightarrow> [row1, row2, row3]
          | Some t \<Rightarrow> filter (\<lambda>r. status r = t) [row1, row2, row3])) 1 50
     = \<lparr>items = [row2, row3], total = 2, page = 1, size' = 50\<rparr>"
    by (simp add: paginate_def order_by_timestamp_desc_def)
  from n have "list_satellites_filter (Some []) None [row1, row2, row3]
     = (case None of None \<Rightarrow> [row1, row2, row3]
        | Some t \<Rightarrow> filter (\<lambda>r. status r = t) [row1, row2, row3])"
    by blast
  then have n2: "list_satellites_filter (Some []) None [row1, row2, row3] = [row1, row2, row3]"
    by simp
  from n b have n3: "list_satellites (Some []) None 1 50 [row1, row2, row3]
     = Inr (paginate (order_by_timestamp_desc
         (case None of None \<Rightarrow> [row1, row2, row3]
          | Some t \<Rightarrow> filter (\<lambda>r. status r = t) [row1, row2, row3])) 1 50)"
    by blast
  have n4: "paginate (order_by_timestamp_desc
         (case None of None \<Rightarrow> [row1, row2, row3]
          | Some t \<Rightarrow> filter (\<lambda>r. status r = t) [row1, row2, row3])) 1 50
     = \<lparr>items = [row2, row1, row3], total = 3, page = 1, size' = 50\<rparr>"
    by (simp add: paginate_def order_by_timestamp_desc_def)
  note c5 = c3 [unfolded c4]
  note n5 = n3 [unfolded n4]
  from c1 c2 c5 n2 n5 show ?thesis by blast
qed

text \<open>
  C3, the claim as stated fails: with the empty string as satellite id filter and
  \<^verbatim>\<open>critical\<close> as status filter, the listing returns the critical record of satellite
  \<^verbatim>\<open>SAT-001\<close>, whose satellite id is not the given value.
\<close>

theorem empty_satelliteId_with_status_not_intersection:
  "list_satellites (Some []) (Some CRITICAL) 1 50 [row1, row2]
     = Inr \<lparr>items = [row2], total = 1, page = 1, size' = 50\<rparr>"
  by (simp add: list_satellites_def Params_errors_def paginate_def list_satellites_query_def
        list_satellites_filter_def order_by_timestamp_desc_def)

text \<open>
  C3, amended. With a satellite id filter that is not the empty string and a status
  filter, the rows selected are exactly the rows whose satellite id and status both
  equal the given values; the listing (for a filter of at most 64 characters and a page
  and size within bounds) counts exactly these rows and returns only such rows. With
  one filter absent every value of that field matches, and with both absent every row.
\<close>

theorem filters_intersect:
  assumes "s \<noteq> []"
  shows "list_satellites_filter (Some s) (Some t) rows
           = filter (\<lambda>r. satelliteId r = s \<and> status r = t) rows
       \<and> set (list_satellites_query (Some s) (Some t) rows)
           = {r \<in> set rows. satelliteId r = s \<and> status r = t}
       \<and> (length s \<le> 64 \<and> 1 \<le> pg \<and> 1 \<le> sz \<and> sz \<le> 100 \<longrightarrow>
            (\<exists>P. list_satellites (Some s) (Some t) pg sz rows = Inr P
               \<and> total P = length (filter (\<lambda>r. satelliteId r = s \<and> status r = t) rows)
               \<and> set (items P) \<subseteq> {r \<in> set rows. satelliteId r = s \<and> status r = t}))
       \<and> list_satellites_filter (Some s) None rows = filter (\<lambda>r. satelliteId r = s) rows
       \<and> list_satellites_filter None (Some t) rows = filter (\<lambda>r. status r = t) rows
       \<and> list_satellites_filter None None rows = rows"
proof -
  let ?m = "\<lambda>r. satelliteId r = s \<and> status r = t"
  from assms have f: "list_satellites_filter (Some s) (Some t) rows = filter ?m rows"
    by (simp add: list_satellites_filter_simps)
  then have q: "set (list_satellites_query (Some s) (Some t) rows) = {r \<in> set rows. ?m r}"
    by (simp add: set_list_satellites_query)
  have e: "\<exists>P. list_satellites (Some s) (Some t) pg sz rows = Inr P
               \<and> total P = length (filter ?m rows)
               \<and> set (items P) \<subseteq> {r \<in> set rows. ?m r}"
    if "length s \<le> 64" "1 \<le> pg" "1 \<le> sz" "sz \<le> 100"
  proof -
    let ?P = "paginate (list_satellites_query (Some s) (Some t) rows) pg sz"
    from that have "list_satellites (Some s) (Some t) pg sz rows = Inr ?P"
      by (intro list_satellites_ok) simp_all
    moreover have "total ?P = length (filter ?m rows)"
      by (simp add: paginate_def length_list_satellites_query f)
    moreover have "set (items ?P) \<subseteq> set (list_satellites_query (Some s) (Some t) rows)"
      unfolding paginate_def using set_take_subset set_drop_subset by fastforce
    ultimately show ?thesis using q by blast
  qed
  from assms f q e show ?thesis
    by (simp add: list_satellites_filter_simps)
qed

theorem filters_intersect_witness:
  "list_satellites (Some ''SAT-001'') (Some CRITICAL) 1 50 [row1, row2]
     = Inr \<lparr>items = [row2], total = 1, page = 1, size' = 50\<rparr>
   \<and> list_satellites_filter (Some ''SAT-001'') (Some CRITICAL) [row1, row2] = [row2]
   \<and> list_satellites_filter (Some ''SAT-001'') None [row1, row2] = [row1, row2]
   \<and> list_satellites_filter None (Some HEALTHY) [row1, row2] = [row1]"
proof -
  have ne: "''SAT-001'' \<noteq> []" by simp
  have "list_satellites (Some ''SAT-001'') (Some CRITICAL) 1 50 [row1, row2]
     = Inr \<lparr>items = [row2], total = 1, page = 1, size' = 50\<rparr>"
    by (simp add: list_satellites_def Params_errors_def paginate_def list_satellites_query_def
        list_satellites_filter_def order_by_timestamp_desc_def)
  with filters_intersect [OF ne, of CRITICAL "[row1, row2]" 1 50]
    filters_intersect [OF ne, of HEALTHY "[row1, row2]" 1 50]
  show ?thesis by simp
qed

section \<open>Listing: order\<close>

lemma sorted_desc_order_by:
  "sorted_wrt (\<lambda>a b. timestamp a \<ge> timestamp b) (order_by_timestamp_desc query)"
proof -
  have "sorted (map (\<lambda>r. - timestamp r) (sort_key (\<lambda>r. - timestamp r) query))"
    by (rule sorted_sort_key)
  then show ?thesis
    by (simp add: order_by_timestamp_desc_def sorted_wrt_map)
qed

lemma listed_before_insort:
  assumes "sorted_wrt listed_before ys" and "\<forall>y\<in>set ys. id' x < id' y"
  shows "sorted_wrt listed_before (insort_key (\<lambda>r. - timestamp r) x ys)"
  using assms
proof (induction ys)
  case Nil
  then show ?case by simp
next
  case (Cons y ys)
  show ?case
  proof (cases "timestamp y \<le> timestamp x")
    case True
    have "listed_before x z" if "z \<in> set (y # ys)" for z
    proof -
      from that Cons.prems(1) have "timestamp z \<le> timestamp y"
        by (auto simp: listed_before_def)
      with True that Cons.prems(2) show ?thesis
        by (auto simp: listed_before_def)
    qed
    with True Cons.prems(1) show ?thesis by simp
  next
    case False
    then have "listed_before y x" by (simp add: listed_before_def)
    with False Cons show ?thesis by (auto simp: set_insort_key)
  qed
qed

lemma listed_before_order_by:
  "sorted_wrt (<) (map id' query) \<Longrightarrow> sorted_wrt listed_before (order_by_timestamp_desc query)"
  unfolding order_by_timestamp_desc_def
proof (induction query)
  case Nil
  then show ?case by simp
next
  case (Cons x xs)
  then have "sorted_wrt listed_before (sort_key (\<lambda>r. - timestamp r) xs)"
    and "\<forall>y\<in>set (sort_key (\<lambda>r. - timestamp r) xs). id' x < id' y"
    by simp_all
  then show ?case by (simp add: listed_before_insort)
qed

lemma rowid_order_list_satellites_filter:
  "rowid_order rows \<Longrightarrow> rowid_order (list_satellites_filter sid st rows)"
  by (simp add: list_satellites_filter_def rowid_order_filter)

lemma listed_before_query:
  "rowid_order rows \<Longrightarrow> sorted_wrt listed_before (list_satellites_query sid st rows)"
  unfolding list_satellites_query_def
  using rowid_order_list_satellites_filter [of rows sid st]
  by (intro listed_before_order_by) (simp add: rowid_order_def)

lemma sorted_wrt_items:
  "sorted_wrt R query \<Longrightarrow> sorted_wrt R (items (paginate query pg sz))"
  by (simp add: paginate_def)

lemma rowid_order_same_set:
  assumes "rowid_order rows" and "rowid_order rows'" and "set rows = set rows'"
  shows "rows = rows'"
proof -
  from assms(1,2) have s: "sorted (map id' rows)" "sorted (map id' rows')"
    and d: "distinct (map id' rows)" "distinct (map id' rows')"
    by (simp_all add: rowid_order_def strict_sorted_iff)
  from assms(3) have "set (map id' rows) = set (map id' rows')" by simp
  with s d have m: "map id' rows = map id' rows'"
    by (intro sorted_distinct_set_unique)
  from d(1) assms(3) have "inj_on id' (set rows \<union> set rows')"
    by (simp add: distinct_map)
  with m show ?thesis by (simp add: inj_on_map_eq_map)
qed

text \<open>
  C4. For every table and every filter combination the result sequence of the listing,
  and so every page of it, is in descending order of timestamp. In a table in rowid
  order (every table the service builds) the sequence is strictly ordered by timestamp
  descending and then primary key ascending, so records of equal timestamp appear in a
  fixed order; and the response is determined by the set of stored records alone: two
  such tables holding the same records give the same response to the same request.
\<close>

theorem listing_order:
  "sorted_wrt (\<lambda>a b. timestamp a \<ge> timestamp b) (list_satellites_query sid st rows)
   \<and> (rowid_order rows \<longrightarrow> sorted_wrt listed_before (list_satellites_query sid st rows))
   \<and> (\<forall>P. list_satellites sid st pg sz rows = Inr P \<longrightarrow>
         sorted_wrt (\<lambda>a b. timestamp a \<ge> timestamp b) (items P)
         \<and> (rowid_order rows \<longrightarrow> sorted_wrt listed_before (items P)))
   \<and> (rowid_order rows \<and> rowid_order rows' \<and> set rows = set rows' \<longrightarrow>
         list_satellites sid st pg sz rows = list_satellites sid st pg sz rows')"
proof -
  have a: "sorted_wrt (\<lambda>a b. timestamp a \<ge> timestamp b) (list_satellites_query sid st rows)"
    unfolding list_satellites_query_def by (rule sorted_desc_order_by)
  have b: "rowid_order rows \<longrightarrow> sorted_wrt listed_before (list_satellites_query sid st rows)"
    by (simp add: listed_before_query)
  have c: "sorted_wrt (\<lambda>a b. timestamp a \<ge> timestamp b) (items P)
         \<and> (rowid_order rows \<longrightarrow> sorted_wrt listed_before (items P))"
    if "list_satellites sid st pg sz rows = Inr P" for P
  proof -
    from that have "P = paginate (list_satellites_query sid st rows) pg sz"
      by (rule list_satellites_Inr)
    with a b show ?thesis by (simp add: sorted_wrt_items)
  qed
  have d: "rowid_order rows \<and> rowid_order rows' \<and> set rows = set rows' \<longrightarrow>
         list_satellites sid st pg sz rows = list_satellites sid st pg sz rows'"
    using rowid_order_same_set [of rows rows'] by auto
  from a b c d show ?thesis by blast
qed

theorem listing_order_witness:
  "rowid_order [row1, row2, row3]
   \<and> list_satellites None None 1 50 [row1, row2, row3]
       = Inr \<lparr>items = [row2, row1, row3], total = 3, page = 1, size' = 50\<rparr>
   \<and> sorted_wrt listed_before [row2, row1, row3]
   \<and> sorted_wrt (\<lambda>a b. timestamp a \<ge> timestamp b) [row2, row1, row3]"
proof -
  have ro: "rowid_order [row1, row2, row3]" by (simp add: rowid_order_def)
  have e: "list_satellites None None 1 50 [row1, row2, row3]
       = Inr \<lparr>items = [row2, row1, row3], total = 3, page = 1, size' = 50\<rparr>"
    by (simp add: list_satellites_def Params_errors_def paginate_def list_satellites_query_def
        list_satellites_filter_def order_by_timestamp_desc_def)
  from listing_order [of None None "[row1, row2, row3]" 1 50 "[row1, row2, row3]"] e ro
  have "sorted_wrt (\<lambda>a b. timestamp a \<ge> timestamp b)
          (items \<lparr>items = [row2, row1, row3], total = 3, page = 1, size' = 50\<rparr>)
      \<and> sorted_wrt listed_before
          (items \<lparr>items = [row2, row1, row3], total = 3, page = 1, size' = 50\<rparr>)"
    by blast
  with ro e show ?thesis by simp
qed

section \<open>Listing: pages\<close>

lemma window_disjoint:
  assumes "distinct xs" and "a + n \<le> b"
  shows "set (take n (drop a xs)) \<inter> set (take m (drop b xs)) = {}"
proof -
  have "take n (drop a xs) = drop a (take (n + a) xs)" by (simp add: take_drop)
  then have "set (take n (drop a xs)) \<subseteq> set (take (a + n) xs)"
    by (simp add: set_drop_subset add.commute)
  moreover have "set (take m (drop b xs)) \<subseteq> set (drop b xs)"
    by (rule set_take_subset)
  moreover from assms have "set (take (a + n) xs) \<inter> set (drop b xs) = {}"
    by (rule set_take_disj_set_drop_if_distinct)
  ultimately show ?thesis by blast
qed

lemma page_offsets:
  assumes "1 \<le> pg" and "pg < pg'" and "1 \<le> sz"
  shows "nat ((pg - 1) * sz) + nat sz \<le> nat ((pg' - 1) * sz)"
proof -
  from assms have "pg * sz \<le> (pg' - 1) * sz" by (intro mult_right_mono) simp_all
  moreover have "(pg - 1) * sz + sz = pg * sz" by (simp add: algebra_simps)
  moreover from assms have "0 \<le> (pg - 1) * sz" by simp
  ultimately show ?thesis using assms(3) by linarith
qed

lemma distinct_ids_query:
  assumes "rowid_order rows"
  shows "distinct (map id' (list_satellites_query sid st rows))"
proof -
  from assms have "distinct (map id' (list_satellites_filter sid st rows))"
    by (intro rowid_order_distinct rowid_order_list_satellites_filter)
  then show ?thesis
    by (simp add: list_satellites_query_def order_by_timestamp_desc_def distinct_map)
qed

lemma pages_disjoint:
  assumes "rowid_order rows" and "1 \<le> pg" and "1 \<le> pg'" and "pg \<noteq> pg'" and "1 \<le> sz"
  shows "id' ` set (items (paginate (list_satellites_query sid st rows) pg sz))
       \<inter> id' ` set (items (paginate (list_satellites_query sid st rows) pg' sz)) = {}"
proof -
  let ?ids = "map id' (list_satellites_query sid st rows)"
  have w: "id' ` set (items (paginate (list_satellites_query sid st rows) k sz))
      = set (take (nat sz) (drop (nat ((k - 1) * sz)) ?ids))" for k
    by (simp add: paginate_def take_map drop_map)
  have d: "distinct ?ids" using assms(1) by (rule distinct_ids_query)
  consider "pg < pg'" | "pg' < pg" using assms(4) by linarith
  then show ?thesis
  proof cases
    case 1
    with assms have "nat ((pg - 1) * sz) + nat sz \<le> nat ((pg' - 1) * sz)"
      by (intro page_offsets)
    with d show ?thesis unfolding w by (rule window_disjoint)
  next
    case 2
    with assms have "nat ((pg' - 1) * sz) + nat sz \<le> nat ((pg - 1) * sz)"
      by (intro page_offsets)
    with d have "set (take (nat sz) (drop (nat ((pg' - 1) * sz)) ?ids))
        \<inter> set (take (nat sz) (drop (nat ((pg - 1) * sz)) ?ids)) = {}"
      by (rule window_disjoint)
    then show ?thesis unfolding w by blast
  qed
qed

text \<open>
  C2. For a page of at least 1, a size from 1 to 100 and filters the endpoint accepts,
  the listing succeeds, and its items are the slice of the ordered, filtered result
  sequence that starts at position \<open>(page - 1) * size\<close> and ends before \<open>page * size\<close> or
  at the end of the sequence: item \<open>j\<close> of the page is element \<open>(page - 1) * size + j\<close>
  of the sequence. So a page has at most \<open>size\<close> items, and none, without an error,
  when it lies beyond the last page. The total is the count of all matching rows,
  whatever the page and size, and page and size are echoed. Two different pages of the
  same listing share no record id (the table being in rowid order, as every table the
  service builds is).
\<close>

theorem list_satellites_page:
  assumes "1 \<le> pg" and "1 \<le> sz" and "sz \<le> 100" and "satelliteId_query_errors sid = []"
  shows "\<exists>P. list_satellites sid st pg sz rows = Inr P
     \<and> length (items P)
         = min (nat sz) (length (list_satellites_query sid st rows) - nat ((pg - 1) * sz))
     \<and> (\<forall>j<length (items P).
           items P ! j = list_satellites_query sid st rows ! (nat ((pg - 1) * sz) + j))
     \<and> length (items P) \<le> nat sz
     \<and> (int (length (list_satellites_query sid st rows)) \<le> (pg - 1) * sz \<longrightarrow> items P = [])
     \<and> total P = length (list_satellites_filter sid st rows)
     \<and> page P = pg \<and> size' P = sz
     \<and> (\<forall>pg' P'. rowid_order rows \<and> 1 \<le> pg' \<and> pg' \<noteq> pg
           \<and> list_satellites sid st pg' sz rows = Inr P'
           \<longrightarrow> id' ` set (items P) \<inter> id' ` set (items P') = {})"
proof -
  let ?q = "list_satellites_query sid st rows"
  let ?P = "paginate ?q pg sz"
  from assms have ok: "list_satellites sid st pg sz rows = Inr ?P"
    by (intro list_satellites_ok)
  have len: "length (items ?P) = min (nat sz) (length ?q - nat ((pg - 1) * sz))"
    by (simp add: paginate_def min.commute)
  have nth: "\<forall>j<length (items ?P). items ?P ! j = ?q ! (nat ((pg - 1) * sz) + j)"
    by (auto simp: paginate_def)
  have le: "length (items ?P) \<le> nat sz"
    by (simp add: paginate_def)
  have beyond: "int (length ?q) \<le> (pg - 1) * sz \<longrightarrow> items ?P = []"
    by (simp add: paginate_def)
  have tot: "total ?P = length (list_satellites_filter sid st rows)"
    by (simp add: paginate_def length_list_satellites_query)
  have echo: "page ?P = pg \<and> size' ?P = sz"
    by (simp add: paginate_def)
  have disj: "id' ` set (items ?P) \<inter> id' ` set (items P') = {}"
    if "rowid_order rows" "1 \<le> pg'" "pg' \<noteq> pg" "list_satellites sid st pg' sz rows = Inr P'"
    for pg' P'
  proof -
    from that(4) have "P' = paginate ?q pg' sz" by (rule list_satellites_Inr)
    with that assms show ?thesis by (simp add: pages_disjoint)
  qed
  from ok len nth le beyond tot echo disj show ?thesis by blast
qed

theorem list_satellites_page_witness:
  "rowid_order [row1, row2, row3]
   \<and> list_satellites None None 1 2 [row1, row2, row3]
       = Inr \<lparr>items = [row2, row1], total = 3, page = 1, size' = 2\<rparr>
   \<and> list_satellites None None 2 2 [row1, row2, row3]
       = Inr \<lparr>items = [row3], total = 3, page = 2, size' = 2\<rparr>
   \<and> list_satellites None None 3 2 [row1, row2, row3]
       = Inr \<lparr>items = [], total = 3, page = 3, size' = 2\<rparr>
   \<and> id' ` set [row2, row1] \<inter> id' ` set [row3] = {}"
proof -
  have ro: "rowid_order [row1, row2, row3]" by (simp add: rowid_order_def)
  have e1: "list_satellites None None 1 2 [row1, row2, row3]
       = Inr \<lparr>items = [row2, row1], total = 3, page = 1, size' = 2\<rparr>"
    by (simp add: list_satellites_def Params_errors_def paginate_def list_satellites_query_def
        list_satellites_filter_def order_by_timestamp_desc_def)
  have e2: "list_satellites None None 2 2 [row1, row2, row3]
       = Inr \<lparr>items = [row3], total = 3, page = 2, size' = 2\<rparr>"
    by (simp add: list_satellites_def Params_errors_def paginate_def list_satellites_query_def
        list_satellites_filter_def order_by_timestamp_desc_def)
  have e3: "list_satellites None None 3 2 [row1, row2, row3]
       = Inr \<lparr>items = [], total = 3, page = 3, size' = 2\<rparr>"
    by (simp add: list_satellites_def Params_errors_def paginate_def list_satellites_query_def
        list_satellites_filter_def order_by_timestamp_desc_def)
  have h: "1 \<le> (1::int)" "1 \<le> (2::int)" "(2::int) \<le> 100" "satelliteId_query_errors None = []"
    by simp_all
  from list_satellites_page [OF h, of None "[row1, row2, row3]"]
  obtain P where P: "list_satellites None None 1 2 [row1, row2, row3] = Inr P"
    and D: "\<forall>pg' P'. rowid_order [row1, row2, row3] \<and> 1 \<le> pg' \<and> pg' \<noteq> 1
           \<and> list_satellites None None pg' 2 [row1, row2, row3] = Inr P'
           \<longrightarrow> id' ` set (items P) \<inter> id' ` set (items P') = {}"
    by blast
  from P e1 have "items P = [row2, row1]" by simp
  moreover from D ro e2 have "id' ` set (items P)
      \<inter> id' ` set (items \<lparr>items = [row3], total = 3, page = 2, size' = 2\<rparr>) = {}"
    by (elim allE [where x = 2] allE [where x = "\<lparr>items = [row3], total = 3, page = 2, size' = 2\<rparr>"])
       simp
  ultimately have "id' ` set [row2, row1] \<inter> id' ` set [row3] = {}" by simp
  with ro e1 e2 e3 show ?thesis by blast
qed

end
